theory Spec2Isabelle
  imports Complex_Main
begin

section \<open>Values, errors and array-like inputs\<close>

text \<open>
  The detector of \<^verbatim>\<open>pyod/models/mcd.py\<close> is a facade: \<^verbatim>\<open>MCD.fit\<close> validates
  its input, builds a fresh robust covariance estimator, stores the estimator's
  distances as decision scores and derives a threshold and labels;
  \<^verbatim>\<open>MCD.decision_function\<close> checks that the detector is fitted, validates its input
  and asks the stored estimator for Mahalanobis distances. Numbers are exact reals here,
  not IEEE floats; the special float values an input may carry are cells of their own.

  Every exception is a value. The first five errors are the kinds of the specification;
  \<open>AttributeError\<close> is what Python raises when an attribute that was never assigned
  is read.
\<close>

datatype error =
  InvalidParameter | InvalidInput | SingularMatrix | NotFitted | DimensionMismatch
  | AttributeError

type_synonym vec = "real list"
type_synonym matrix = "real list list"

text \<open>
  What a caller may pass as \<^verbatim>\<open>X\<close>: any nesting of sequences of cells, where a cell is
  a finite number, one of the float specials, or something that is not a number.
\<close>

datatype cell = Num real | NaN | PosInf | NegInf | Text string

datatype array_like = Leaf cell | Nest "array_like list"

text \<open>Running a fallible function over a list stops at the first error.\<close>

fun traverse :: "('a \<Rightarrow> error + 'b) \<Rightarrow> 'a list \<Rightarrow> error + 'b list" where
  "traverse f [] = Inr []"
| "traverse f (x # xs) =
     (case f x of
        Inl e \<Rightarrow> Inl e
      | Inr y \<Rightarrow> (case traverse f xs of Inl e \<Rightarrow> Inl e | Inr ys \<Rightarrow> Inr (y # ys)))"


section \<open>Input validation\<close>

fun leaf_of :: "array_like \<Rightarrow> cell option" where
  "leaf_of (Leaf c) = Some c"
| "leaf_of (Nest xs) = None"

fun row_of :: "array_like \<Rightarrow> cell list option" where
  "row_of (Nest xs) = those (map leaf_of xs)"
| "row_of (Leaf c) = None"

text \<open>
  The rows of a two-dimensional input. A leaf is zero-dimensional, the empty sequence
  is the one-dimensional empty array, and a row that is not a sequence of leaves has the
  wrong depth.
\<close>

fun rows_of :: "array_like \<Rightarrow> cell list list option" where
  "rows_of (Nest xs) = (if xs = [] then None else those (map row_of xs))"
| "rows_of (Leaf c) = None"

definition rectangular :: "'a list list \<Rightarrow> bool" where
  "rectangular rows = list_all (\<lambda>r. length r = length (hd rows)) rows"

fun num_of :: "cell \<Rightarrow> real option" where
  "num_of (Num r) = Some r"
| "num_of c = None"

definition is_2d :: "array_like \<Rightarrow> bool" where
  "is_2d X = (case rows_of X of None \<Rightarrow> False | Some rows \<Rightarrow> rectangular rows)"

definition cells_of :: "array_like \<Rightarrow> cell list" where
  "cells_of X = (case rows_of X of None \<Rightarrow> [] | Some rows \<Rightarrow> concat rows)"

definition all_finite_numbers :: "array_like \<Rightarrow> bool" where
  "all_finite_numbers X = list_all (\<lambda>c. num_of c \<noteq> None) (cells_of X)"

text \<open>
  Modelled from the spec: \<^verbatim>\<open>check_array\<close> is imported from scikit-learn (mcd.py, line 12)
  and is not part of the sources. Section 4.4: fit "validates X is a 2D numeric array with
  no NaN/Inf (InvalidInput otherwise)". The validated array is returned as a matrix of
  reals, row by row.
\<close>

definition check_array :: "array_like \<Rightarrow> error + matrix" where
  "check_array X =
     (case rows_of X of
        None \<Rightarrow> Inl InvalidInput
      | Some rows \<Rightarrow>
          if \<not> rectangular rows then Inl InvalidInput
          else (case those (map (\<lambda>r. those (map num_of r)) rows) of
                  None \<Rightarrow> Inl InvalidInput
                | Some M \<Rightarrow> Inr M))"


section \<open>Mahalanobis scoring\<close>

text \<open>The number of columns of a matrix with at least one row.\<close>

definition width :: "matrix \<Rightarrow> nat" where
  "width M = (case M of [] \<Rightarrow> 0 | r # rs \<Rightarrow> length r)"

definition dot :: "vec \<Rightarrow> vec \<Rightarrow> real" where
  "dot u v = sum_list (map2 (*) u v)"

definition mat_vec :: "matrix \<Rightarrow> vec \<Rightarrow> vec" where
  "mat_vec M v = map (\<lambda>row. dot row v) M"

definition column :: "matrix \<Rightarrow> nat \<Rightarrow> vec" where
  "column M j = map (\<lambda>row. row ! j) M"

text \<open>
  Modelled from the spec: \<^verbatim>\<open>MinCovDet.mahalanobis\<close> belongs to scikit-learn (mcd.py,
  line 10) and is not part of the sources. Section 4.2: the score of a point \<open>x\<close> is
  \<open>(x - location)\<^sup>t \<cdot> precision \<cdot> (x - location)\<close>, one per point; "Errors with
  DimensionMismatch if point dimensionality \<noteq> len(location)". The library returns
  64-bit floats; the value here is the exact real one, so nothing below speaks of
  rounding, underflow or overflow.
\<close>

definition score_point :: "vec \<Rightarrow> matrix \<Rightarrow> vec \<Rightarrow> error + real" where
  "score_point loc P x =
     (if length x \<noteq> length loc then Inl DimensionMismatch
      else let d = map2 (-) x loc in Inr (dot d (mat_vec P d)))"

definition score :: "matrix \<Rightarrow> vec \<Rightarrow> matrix \<Rightarrow> error + vec" where
  "score points loc P = traverse (score_point loc P) points"


section \<open>The robust covariance estimator\<close>

text \<open>
  \<^verbatim>\<open>random_state\<close> (mcd.py, lines 59-64): an integer seed, a generator instance, or
  nothing, in which case the process-wide generator is used. \<open>'g\<close> is the type of
  generator states.
\<close>

datatype 'g random_state = NoSeed | Seed int | Generator 'g

text \<open>What the estimation algorithm returns: the raw and the corrected estimate.\<close>

record estimate =
  e_raw_location :: vec
  e_raw_covariance :: matrix
  e_raw_support :: "bool list"
  e_location :: vec
  e_covariance :: matrix
  e_support :: "bool list"

text \<open>
  The numerical library that the facade delegates to is a parameter of the model:
  \<open>seed_rng\<close> makes a generator from an integer seed; \<open>robust_estimate\<close> is the FastMCD
  search with correction and reweighting (section 4.1, steps 1-6), run on a generator
  state with \<^verbatim>\<open>assume_centered\<close> and \<^verbatim>\<open>support_fraction\<close>, returning the generator
  state it leaves behind; \<open>invert\<close> is the matrix inversion of step 7. Every theorem below
  holds for any such library.
\<close>

record 'g library =
  seed_rng :: "int \<Rightarrow> 'g"
  robust_estimate :: "'g \<Rightarrow> bool \<Rightarrow> real option \<Rightarrow> matrix \<Rightarrow> (error + estimate) \<times> 'g"
  invert :: "matrix \<Rightarrow> error + matrix"

text \<open>The attributes a fitted estimator carries; the precision only if it is stored.\<close>

record fitted =
  f_raw_location :: vec
  f_raw_covariance :: matrix
  f_raw_support :: "bool list"
  f_location :: vec
  f_covariance :: matrix
  f_precision :: "matrix option"
  f_support :: "bool list"
  f_dist :: vec

record 'g MinCovDet =
  d_store_precision :: bool
  d_assume_centered :: bool
  d_support_fraction :: "real option"
  d_random_state :: "'g random_state"
  d_fitted :: "fitted option"

text \<open>The constructor call of mcd.py, lines 136-139: a new estimator, nothing fitted.\<close>

definition MinCovDet_init ::
  "bool \<Rightarrow> bool \<Rightarrow> real option \<Rightarrow> 'g random_state \<Rightarrow> 'g MinCovDet" where
  "MinCovDet_init sp ac sf rs =
     \<lparr>d_store_precision = sp, d_assume_centered = ac, d_support_fraction = sf,
      d_random_state = rs, d_fitted = None\<rparr>"

text \<open>
  Modelled from the spec: \<^verbatim>\<open>MinCovDet.fit\<close> belongs to scikit-learn and is not part of
  the sources. Section 4.1: the estimate comes from the algorithm, the covariance is
  inverted (step 7; the precision is stored "only if requested"), and by sections 3 and
  4.4 the distance of each training sample is the scorer's output under the corrected
  estimate. An integer seed gives a new generator at each fit; without a seed the
  process-wide generator \<open>amb\<close> is used and advanced; a generator instance is used and
  advanced itself. The labels \<open>y\<close> play no part.
\<close>

definition MinCovDet_fit ::
  "'g library \<Rightarrow> 'g MinCovDet \<Rightarrow> matrix \<Rightarrow> int list option \<Rightarrow> 'g
     \<Rightarrow> error option \<times> 'g MinCovDet \<times> 'g" where
  "MinCovDet_fit lib d X y amb =
     (let g = (case d_random_state d of
                 NoSeed \<Rightarrow> amb | Seed s \<Rightarrow> seed_rng lib s | Generator g0 \<Rightarrow> g0);
          run = robust_estimate lib g (d_assume_centered d) (d_support_fraction d) X;
          d1 = (case d_random_state d of
                  Generator g0 \<Rightarrow> d\<lparr>d_random_state := Generator (snd run)\<rparr>
                | _ \<Rightarrow> d);
          amb1 = (case d_random_state d of NoSeed \<Rightarrow> snd run | _ \<Rightarrow> amb)
      in case fst run of
           Inl e \<Rightarrow> (Some e, d1, amb1)
         | Inr est \<Rightarrow>
             (case invert lib (e_covariance est) of
                Inl e \<Rightarrow> (Some e, d1, amb1)
              | Inr P \<Rightarrow>
                  (case score X (e_location est) P of
                     Inl e \<Rightarrow> (Some e, d1, amb1)
                   | Inr ds \<Rightarrow>
                       (None,
                        d1\<lparr>d_fitted := Some
                             \<lparr>f_raw_location = e_raw_location est,
                              f_raw_covariance = e_raw_covariance est,
                              f_raw_support = e_raw_support est,
                              f_location = e_location est,
                              f_covariance = e_covariance est,
                              f_precision = (if d_store_precision d then Some P else None),
                              f_support = e_support est,
                              f_dist = ds\<rparr>\<rparr>,
                        amb1))))"

text \<open>
  Modelled from the spec: the precision in use is the stored one, or else the inverse of
  the covariance computed again (section 4.1, step 7).
\<close>

definition get_precision :: "'g library \<Rightarrow> fitted \<Rightarrow> error + matrix" where
  "get_precision lib f =
     (case f_precision f of Some P \<Rightarrow> Inr P | None \<Rightarrow> invert lib (f_covariance f))"

definition mahalanobis :: "'g library \<Rightarrow> 'g MinCovDet \<Rightarrow> matrix \<Rightarrow> error + vec" where
  "mahalanobis lib d X =
     (case d_fitted d of
        None \<Rightarrow> Inl AttributeError
      | Some f \<Rightarrow>
          (case get_precision lib f of
             Inl e \<Rightarrow> Inl e
           | Inr P \<Rightarrow> score X (f_location f) P))"


section \<open>Thresholding\<close>

definition order_statistic :: "nat \<Rightarrow> real list \<Rightarrow> real option" where
  "order_statistic k xs =
     (if 1 \<le> k \<and> k \<le> length xs then Some (sort xs ! (k - 1)) else None)"

definition apply_threshold :: "real list \<Rightarrow> real \<Rightarrow> nat list" where
  "apply_threshold scores t = map (\<lambda>s. if s > t then 1 else 0) scores"

text \<open>
  Modelled from the spec: the thresholding of \<^verbatim>\<open>BaseDetector\<close> (pyod/models/base.py) is
  not part of the sources. Section 4.3: "contamination \<in> (0, 0.5) exclusive; fail
  InvalidParameter otherwise"; "threshold = the value at the ceil(n\<cdot>(1-contamination))-th
  order statistic of scores"; "label[i] = 1 if scores[i] > threshold else 0". An empty score
  vector has no order statistic; that case is reported as \<open>InvalidInput\<close>.
\<close>

definition fit_threshold :: "real list \<Rightarrow> real \<Rightarrow> error + real \<times> nat list" where
  "fit_threshold scores c =
     (if \<not> (0 < c \<and> c < 1 / 2) then Inl InvalidParameter
      else (case order_statistic (nat \<lceil>real (length scores) * (1 - c)\<rceil>) scores of
              None \<Rightarrow> Inl InvalidInput
            | Some t \<Rightarrow> Inr (t, apply_threshold scores t)))"


section \<open>The detector\<close>

text \<open>
  The object of class \<^verbatim>\<open>MCD\<close>: the five constructor parameters, and the attributes
  that exist only once they are assigned (\<open>None\<close> is an attribute that was never set).
\<close>

record 'g MCD =
  contamination :: real
  store_precision :: bool
  assume_centered :: bool
  support_fraction :: "real option"
  random_state :: "'g random_state"
  n_classes :: "nat option"
  detector :: "'g MinCovDet option"
  decision_scores :: "vec option"
  threshold :: "real option"
  labels :: "nat list option"

text \<open>
  Modelled from the spec: \<^verbatim>\<open>BaseDetector.__init__\<close> (pyod/models/base.py) is not part
  of the sources; it receives the contamination (mcd.py, line 114). Section 4.3:
  "contamination \<in> (0, 0.5) exclusive; fail InvalidParameter otherwise".
\<close>

definition BaseDetector_init :: "real \<Rightarrow> error + real" where
  "BaseDetector_init c = (if 0 < c \<and> c < 1 / 2 then Inr c else Inl InvalidParameter)"

text \<open>\<^verbatim>\<open>MCD.__init__\<close>, mcd.py, lines 111-118.\<close>

definition MCD_init ::
  "real \<Rightarrow> bool \<Rightarrow> bool \<Rightarrow> real option \<Rightarrow> 'g random_state \<Rightarrow> error + 'g MCD" where
  "MCD_init c sp ac sf rs =
     (case BaseDetector_init c of
        Inl e \<Rightarrow> Inl e
      | Inr c' \<Rightarrow>
          Inr \<lparr>contamination = c', store_precision = sp, assume_centered = ac,
               support_fraction = sf, random_state = rs, n_classes = None,
               detector = None, decision_scores = None, threshold = None,
               labels = None\<rparr>)"

text \<open>
  Modelled from the spec: \<^verbatim>\<open>_set_n_classes\<close> of \<^verbatim>\<open>BaseDetector\<close> is not part of the
  sources. Section 4.4: fit "determines number of classes present in optional labels y
  (informational only)".
\<close>

definition set_n_classes :: "'g MCD \<Rightarrow> int list option \<Rightarrow> 'g MCD" where
  "set_n_classes m y = m\<lparr>n_classes := map_option (\<lambda>ys. length (remdups ys)) y\<rparr>"

text \<open>
  Modelled from the spec: \<^verbatim>\<open>_process_decision_scores\<close> of \<^verbatim>\<open>BaseDetector\<close> is not part
  of the sources. Sections 4.3 and 6: it derives threshold and labels from the stored
  decision scores and the contamination, and leaves the scores as they are.
\<close>

definition process_decision_scores :: "'g MCD \<Rightarrow> error + 'g MCD" where
  "process_decision_scores m =
     (case decision_scores m of
        None \<Rightarrow> Inl AttributeError
      | Some s \<Rightarrow>
          (case fit_threshold s (contamination m) of
             Inl e \<Rightarrow> Inl e
           | Inr (t, ls) \<Rightarrow> Inr (m\<lparr>threshold := Some t, labels := Some ls\<rparr>)))"

text \<open>
  \<^verbatim>\<open>MCD.fit\<close>, mcd.py, lines 121-145. The result is the error raised, if any, the
  object as the call leaves it, and the process-wide generator. An exception leaves the
  assignments made before it in place. A generator instance given as
  \<^verbatim>\<open>random_state\<close> is the same object for the detector and its estimator, so the
  state the estimator leaves it in is seen by both.
\<close>

definition fit ::
  "'g library \<Rightarrow> 'g MCD \<Rightarrow> array_like \<Rightarrow> int list option \<Rightarrow> 'g
     \<Rightarrow> error option \<times> 'g MCD \<times> 'g" where
  "fit lib m X y amb =
     (case check_array X of
        Inl e \<Rightarrow> (Some e, m, amb)
      | Inr X' \<Rightarrow>
          (let m1 = set_n_classes m y;
               d0 = MinCovDet_init (store_precision m1) (assume_centered m1)
                      (support_fraction m1) (random_state m1);
               (r, d1, amb1) = MinCovDet_fit lib d0 X' y amb;
               m2 = m1\<lparr>detector := Some d1, random_state := d_random_state d1\<rparr>
           in case r of
                Some e \<Rightarrow> (Some e, m2, amb1)
              | None \<Rightarrow>
                  (case d_fitted d1 of
                     None \<Rightarrow> (Some AttributeError, m2, amb1)
                   | Some f \<Rightarrow>
                       (let m3 = m2\<lparr>decision_scores := Some (f_dist f)\<rparr>
                        in case process_decision_scores m3 of
                             Inl e \<Rightarrow> (Some e, m3, amb1)
                           | Inr m4 \<Rightarrow> (None, m4, amb1)))))"

text \<open>
  Modelled from the spec: \<^verbatim>\<open>check_is_fitted\<close> is imported from scikit-learn (mcd.py,
  line 11); it is called with the three attribute names of mcd.py, line 148, and by
  section 4.4 the call fails with \<open>NotFitted\<close> unless the detector is fitted.
\<close>

definition check_is_fitted :: "'g MCD \<Rightarrow> error option" where
  "check_is_fitted m =
     (if decision_scores m \<noteq> None \<and> threshold m \<noteq> None \<and> labels m \<noteq> None then None
      else Some NotFitted)"

text \<open>
  \<^verbatim>\<open>MCD.decision_function\<close>, mcd.py, lines 147-152. The method assigns nothing; the
  object is returned beside the result so that this can be stated.
\<close>

definition decision_function ::
  "'g library \<Rightarrow> 'g MCD \<Rightarrow> array_like \<Rightarrow> (error + vec) \<times> 'g MCD" where
  "decision_function lib m X =
     (case check_is_fitted m of
        Some e \<Rightarrow> (Inl e, m)
      | None \<Rightarrow>
          (case check_array X of
             Inl e \<Rightarrow> (Inl e, m)
           | Inr X' \<Rightarrow>
               (case detector m of
                  None \<Rightarrow> (Inl AttributeError, m)
                | Some d \<Rightarrow> (mahalanobis lib d X', m))))"

text \<open>
  The read-only properties of mcd.py, lines 154-214: each reads \<^verbatim>\<open>self.detector_\<close>
  and then the attribute of the estimator; reading an attribute that does not exist
  raises \<open>AttributeError\<close>.
\<close>

definition detector_attr :: "(fitted \<Rightarrow> 'a) \<Rightarrow> 'g MCD \<Rightarrow> error + 'a" where
  "detector_attr sel m =
     (case detector m of
        None \<Rightarrow> Inl AttributeError
      | Some d \<Rightarrow>
          (case d_fitted d of None \<Rightarrow> Inl AttributeError | Some f \<Rightarrow> Inr (sel f)))"

definition raw_location :: "'g MCD \<Rightarrow> error + vec" where
  "raw_location m = detector_attr f_raw_location m"

definition raw_covariance :: "'g MCD \<Rightarrow> error + matrix" where
  "raw_covariance m = detector_attr f_raw_covariance m"

definition raw_support :: "'g MCD \<Rightarrow> error + bool list" where
  "raw_support m = detector_attr f_raw_support m"

definition location :: "'g MCD \<Rightarrow> error + vec" where
  "location m = detector_attr f_location m"

definition covariance :: "'g MCD \<Rightarrow> error + matrix" where
  "covariance m = detector_attr f_covariance m"

definition precision :: "'g MCD \<Rightarrow> error + matrix option" where
  "precision m = detector_attr f_precision m"

definition support :: "'g MCD \<Rightarrow> error + bool list" where
  "support m = detector_attr f_support m"


text \<open>Two detectors were built with the same constructor arguments.\<close>

definition same_parameters :: "'g MCD \<Rightarrow> 'g MCD \<Rightarrow> bool" where
  "same_parameters m m' =
     (contamination m = contamination m' \<and> store_precision m = store_precision m'
      \<and> assume_centered m = assume_centered m' \<and> support_fraction m = support_fraction m'
      \<and> random_state m = random_state m')"


section \<open>An example library and example data\<close>

text \<open>
  A small library on which the model can be run: the classical estimate, whose support is
  the whole sample, as the location and covariance, and the closed-form inverse for one
  and for two features. Its generator state is a counter.
\<close>

definition column_means :: "matrix \<Rightarrow> vec" where
  "column_means X = map (\<lambda>j. sum_list (column X j) / real (length X)) [0..<width X]"

definition empirical_covariance :: "vec \<Rightarrow> matrix \<Rightarrow> matrix" where
  "empirical_covariance mu X =
     map (\<lambda>i. map (\<lambda>j. sum_list (map (\<lambda>x. (x ! i - mu ! i) * (x ! j - mu ! j)) X)
                          / real (length X)) [0..<length mu]) [0..<length mu]"

fun invert_small :: "matrix \<Rightarrow> error + matrix" where
  "invert_small [[a]] = (if a = 0 then Inl SingularMatrix else Inr [[1 / a]])"
| "invert_small [[a, b], [c, d]] =
     (if a * d - b * c = 0 then Inl SingularMatrix
      else Inr [[d / (a * d - b * c), - b / (a * d - b * c)],
                [- c / (a * d - b * c), a / (a * d - b * c)]])"
| "invert_small M = Inl SingularMatrix"

definition classical_estimate ::
  "nat \<Rightarrow> bool \<Rightarrow> real option \<Rightarrow> matrix \<Rightarrow> (error + estimate) \<times> nat" where
  "classical_estimate g ac sf X =
     (let mu = (if ac then replicate (width X) 0 else column_means X);
          C = empirical_covariance mu X;
          S = replicate (length X) True
      in (Inr \<lparr>e_raw_location = mu, e_raw_covariance = C, e_raw_support = S,
               e_location = mu, e_covariance = C, e_support = S\<rparr>, Suc g))"

definition classical_library :: "nat library" where
  "classical_library =
     \<lparr>seed_rng = (\<lambda>s. nat \<bar>s\<bar>), robust_estimate = classical_estimate,
      invert = invert_small\<rparr>"

text \<open>The array-like value of a list of rows of finite numbers.\<close>

definition array_of :: "real list list \<Rightarrow> array_like" where
  "array_of M = Nest (map (\<lambda>r. Nest (map (\<lambda>a. Leaf (Num a)) r)) M)"

text \<open>What \<^verbatim>\<open>MCD(contamination=c, random_state=rs)\<close> builds when \<open>c\<close> is accepted.\<close>

definition new_MCD :: "real \<Rightarrow> 'g random_state \<Rightarrow> 'g MCD" where
  "new_MCD c rs =
     \<lparr>contamination = c, store_precision = True, assume_centered = False,
      support_fraction = None, random_state = rs, n_classes = None,
      detector = None, decision_scores = None, threshold = None, labels = None\<rparr>"

text \<open>Three samples of one feature, and the detector that fitting them gives.\<close>

definition example_data :: array_like where
  "example_data = array_of [[1], [2], [6]]"

definition example_fitted :: "nat MCD" where
  "example_fitted =
     \<lparr>contamination = 2 / 5, store_precision = True, assume_centered = False,
      support_fraction = None, random_state = Seed 7, n_classes = None,
      detector = Some
        \<lparr>d_store_precision = True, d_assume_centered = False,
         d_support_fraction = None, d_random_state = Seed 7,
         d_fitted = Some
           \<lparr>f_raw_location = [3], f_raw_covariance = [[14 / 3]],
            f_raw_support = [True, True, True], f_location = [3],
            f_covariance = [[14 / 3]], f_precision = Some [[3 / 14]],
            f_support = [True, True, True], f_dist = [6 / 7, 3 / 14, 27 / 14]\<rparr>\<rparr>,
      decision_scores = Some [6 / 7, 3 / 14, 27 / 14],
      threshold = Some (6 / 7), labels = Some [0, 0, 1]\<rparr>"


text \<open>Four other samples of one feature, and the detector that fitting them next gives.\<close>

definition example_refit_data :: array_like where
  "example_refit_data = array_of [[0], [4], [5], [7]]"

definition example_refitted :: "nat MCD" where
  "example_refitted =
     \<lparr>contamination = 2 / 5, store_precision = True, assume_centered = False,
      support_fraction = None, random_state = Seed 7, n_classes = None,
      detector = Some
        \<lparr>d_store_precision = True, d_assume_centered = False,
         d_support_fraction = None, d_random_state = Seed 7,
         d_fitted = Some
           \<lparr>f_raw_location = [4], f_raw_covariance = [[13 / 2]],
            f_raw_support = [True, True, True, True], f_location = [4],
            f_covariance = [[13 / 2]], f_precision = Some [[2 / 13]],
            f_support = [True, True, True, True],
            f_dist = [32 / 13, 0, 2 / 13, 18 / 13]\<rparr>\<rparr>,
      decision_scores = Some [32 / 13, 0, 2 / 13, 18 / 13],
      threshold = Some (18 / 13), labels = Some [1, 0, 0, 0]\<rparr>"

text \<open>Two inputs that are not valid.\<close>

definition example_flat_input :: array_like where
  "example_flat_input = Nest [Leaf (Num 1), Leaf (Num 2)]"

definition example_nan_input :: array_like where
  "example_nan_input = Nest [Nest [Leaf (Num 1)], Nest [Leaf NaN]]"


section \<open>Running the model\<close>

lemmas model_defs =
  fit_def check_array_def array_of_def rectangular_def new_MCD_def set_n_classes_def
  MinCovDet_init_def MinCovDet_fit_def classical_library_def classical_estimate_def
  width_def column_means_def column_def empirical_covariance_def score_def
  score_point_def dot_def mat_vec_def process_decision_scores_def fit_threshold_def
  order_statistic_def apply_threshold_def decision_function_def check_is_fitted_def
  mahalanobis_def get_precision_def example_data_def example_fitted_def
  example_refit_data_def example_refitted_def same_parameters_def Let_def

lemma new_MCD_init:
  "MCD_init (2 / 5) True False None rs = Inr (new_MCD (2 / 5) rs)"
  by (simp add: MCD_init_def BaseDetector_init_def new_MCD_def)

lemma example_fit:
  "fit classical_library (new_MCD (2 / 5) (Seed 7)) example_data None amb
     = (None, example_fitted, amb)"
  by (simp add: model_defs)

lemma example_refit:
  "fit classical_library example_fitted example_refit_data None amb
     = (None, example_refitted, amb)"
  by (simp add: model_defs)


section \<open>What a successful fit leaves behind\<close>

lemma MCD_init_unfitted:
  "MCD_init c sp ac sf rs = Inr m \<Longrightarrow>
     detector m = None \<and> decision_scores m = None \<and> threshold m = None \<and> labels m = None"
  by (auto simp: MCD_init_def BaseDetector_init_def split: if_splits)

lemma MinCovDet_fit_success:
  assumes "MinCovDet_fit lib d0 X y amb = (None, d, amb')"
  shows "\<exists>f P. d_fitted d = Some f \<and> invert lib (f_covariance f) = Inr P
          \<and> f_precision f = (if d_store_precision d0 then Some P else None)
          \<and> score X (f_location f) P = Inr (f_dist f)"
  using assms
  by (auto simp: MinCovDet_fit_def Let_def split: sum.splits random_state.splits)

lemma fit_success:
  assumes "fit lib m X y amb = (None, m', amb')"
  shows "\<exists>X' d f t ls.
      check_array X = Inr X'
    \<and> MinCovDet_fit lib (MinCovDet_init (store_precision m) (assume_centered m)
          (support_fraction m) (random_state m)) X' y amb = (None, d, amb')
    \<and> d_fitted d = Some f
    \<and> fit_threshold (f_dist f) (contamination m) = Inr (t, ls)
    \<and> m' = m\<lparr>n_classes := map_option (\<lambda>ys. length (remdups ys)) y,
             detector := Some d, random_state := d_random_state d,
             decision_scores := Some (f_dist f), threshold := Some t, labels := Some ls\<rparr>"
  using assms
  by (auto simp: fit_def set_n_classes_def process_decision_scores_def Let_def
      split: sum.splits option.splits prod.splits)

lemma fitted_precision:
  assumes "MinCovDet_fit lib d0 X y amb = (None, d, amb')" and "d_fitted d = Some f"
  shows "\<exists>P. get_precision lib f = Inr P \<and> score X (f_location f) P = Inr (f_dist f)"
  using MinCovDet_fit_success [OF assms(1)] assms(2)
  by (auto simp: get_precision_def)

lemma fit_successI:
  assumes "check_array X = Inr X'"
    and "MinCovDet_fit lib (MinCovDet_init (store_precision m) (assume_centered m)
          (support_fraction m) (random_state m)) X' y amb = (None, d, amb')"
    and "d_fitted d = Some f"
    and "fit_threshold (f_dist f) (contamination m) = Inr (t, ls)"
  shows "fit lib m X y amb =
           (None,
            m\<lparr>n_classes := map_option (\<lambda>ys. length (remdups ys)) y,
              detector := Some d, random_state := d_random_state d,
              decision_scores := Some (f_dist f), threshold := Some t, labels := Some ls\<rparr>,
            amb')"
  using assms by (simp add: fit_def set_n_classes_def process_decision_scores_def)

lemma fit_reads_parameters_only:
  assumes "same_parameters m0 m" and "fit lib m X y amb = (None, m', amb')"
  shows "fit lib m0 X y amb = (None, m', amb')"
proof -
  from fit_success [OF assms(2)] obtain X' d f t ls where
    X: "check_array X = Inr X'"
    and d: "MinCovDet_fit lib (MinCovDet_init (store_precision m) (assume_centered m)
          (support_fraction m) (random_state m)) X' y amb = (None, d, amb')"
    and f: "d_fitted d = Some f"
    and th: "fit_threshold (f_dist f) (contamination m) = Inr (t, ls)"
    and m': "m' = m\<lparr>n_classes := map_option (\<lambda>ys. length (remdups ys)) y,
             detector := Some d, random_state := d_random_state d,
             decision_scores := Some (f_dist f), threshold := Some t, labels := Some ls\<rparr>"
    by blast
  have eq: "m0\<lparr>n_classes := map_option (\<lambda>ys. length (remdups ys)) y,
             detector := Some d, random_state := d_random_state d,
             decision_scores := Some (f_dist f), threshold := Some t, labels := Some ls\<rparr> = m'"
    using assms(1) unfolding m' same_parameters_def by (cases m0, cases m) simp
  show ?thesis
    using assms(1) X d f th eq
    by (simp add: fit_def same_parameters_def set_n_classes_def process_decision_scores_def)
qed

lemma MinCovDet_fit_seed:
  assumes "d_random_state d0 = Seed s"
  shows "MinCovDet_fit lib d0 X y amb = (r, d, amb') \<Longrightarrow>
         amb' = amb \<and> MinCovDet_fit lib d0 X y amb0 = (r, d, amb0) \<and> d_random_state d = Seed s"
  using assms
  by (auto simp: MinCovDet_fit_def Let_def split: sum.splits)


section \<open>Scoring the training data again\<close>

text \<open>
  C1. After a successful fit on \<open>X\<close>, \<open>decision_function\<close> on the same \<open>X\<close> returns
  the stored decision scores, element for element, and leaves the detector as it is.
\<close>

theorem decision_function_reproduces_training_scores:
  assumes "fit lib m X y amb = (None, m', amb')"
  shows "\<exists>s. decision_scores m' = Some s \<and> decision_function lib m' X = (Inr s, m')"
proof -
  from fit_success [OF assms] obtain X' d f t ls where
    X: "check_array X = Inr X'"
    and d: "MinCovDet_fit lib (MinCovDet_init (store_precision m) (assume_centered m)
          (support_fraction m) (random_state m)) X' y amb = (None, d, amb')"
    and f: "d_fitted d = Some f"
    and m': "m' = m\<lparr>n_classes := map_option (\<lambda>ys. length (remdups ys)) y,
             detector := Some d, random_state := d_random_state d,
             decision_scores := Some (f_dist f), threshold := Some t, labels := Some ls\<rparr>"
    by blast
  from fitted_precision [OF d f] obtain P where
    gp: "get_precision lib f = Inr P" and sc: "score X' (f_location f) P = Inr (f_dist f)"
    by blast
  have "decision_function lib m' X = (Inr (f_dist f), m')"
    using X f gp sc
    by (simp add: m' decision_function_def check_is_fitted_def mahalanobis_def)
  then show ?thesis by (simp add: m')
qed

theorem decision_function_reproduces_training_scores_witness:
  "fit classical_library (new_MCD (2 / 5) (Seed 7)) example_data None 0
     = (None, example_fitted, 0)
   \<and> decision_scores example_fitted = Some [6 / 7, 3 / 14, 27 / 14]
   \<and> decision_function classical_library example_fitted example_data
       = (Inr [6 / 7, 3 / 14, 27 / 14], example_fitted)"
  using decision_function_reproduces_training_scores [OF example_fit [of 0]]
  by (simp add: example_fit) (simp add: example_fitted_def)


section \<open>Before fit\<close>

text \<open>
  C2. On a detector as the constructor leaves it, \<open>decision_function\<close> raises
  \<open>NotFitted\<close> whatever the input is, and returns no scores.
\<close>

theorem decision_function_unfitted:
  assumes "MCD_init c sp ac sf rs = Inr m"
  shows "decision_function lib m X = (Inl NotFitted, m)"
  using MCD_init_unfitted [OF assms]
  by (simp add: decision_function_def check_is_fitted_def)

theorem decision_function_unfitted_witness:
  "MCD_init (2 / 5) True False None (Seed 7) = Inr (new_MCD (2 / 5) (Seed 7))
   \<and> decision_function classical_library (new_MCD (2 / 5) (Seed 7)) example_data
       = (Inl NotFitted, new_MCD (2 / 5) (Seed 7))"
  using decision_function_unfitted [OF new_MCD_init, of classical_library "Seed 7" example_data]
  by (simp add: new_MCD_init)

text \<open>
  C3, as the code has it. On a detector as the constructor leaves it, each of the seven
  properties fails: the attribute \<^verbatim>\<open>detector_\<close> does not exist yet, so reading it raises
  \<open>AttributeError\<close>. No property returns a value.
\<close>

theorem accessors_unfitted:
  assumes "MCD_init c sp ac sf rs = Inr m"
  shows "raw_location m = Inl AttributeError \<and> raw_covariance m = Inl AttributeError
       \<and> raw_support m = Inl AttributeError \<and> location m = Inl AttributeError
       \<and> covariance m = Inl AttributeError \<and> precision m = Inl AttributeError
       \<and> support m = Inl AttributeError"
  using MCD_init_unfitted [OF assms]
  by (simp add: raw_location_def raw_covariance_def raw_support_def location_def
      covariance_def precision_def support_def detector_attr_def)

theorem accessors_unfitted_witness:
  "MCD_init (2 / 5) True False None (Seed 7) = Inr (new_MCD (2 / 5) (Seed 7))
   \<and> raw_location (new_MCD (2 / 5) (Seed 7) :: nat MCD) = Inl AttributeError
   \<and> support (new_MCD (2 / 5) (Seed 7) :: nat MCD) = Inl AttributeError"
  using accessors_unfitted [OF new_MCD_init, of "Seed 7 :: nat random_state"]
  by (simp add: new_MCD_init)

text \<open>
  C3, as the specification words it, fails: the error of a property read before fit is
  not \<open>NotFitted\<close>.
\<close>

theorem accessors_unfitted_counterexample:
  "MCD_init (2 / 5) True False None (Seed 7) = Inr (new_MCD (2 / 5) (Seed 7) :: nat MCD)
   \<and> raw_location (new_MCD (2 / 5) (Seed 7) :: nat MCD) \<noteq> Inl NotFitted"
  by (simp add: new_MCD_init) (simp add: raw_location_def detector_attr_def new_MCD_def)


section \<open>The contamination\<close>

text \<open>
  C5. The constructor fails with \<open>InvalidParameter\<close> exactly when the contamination is
  outside the open interval from 0 to 1/2, as for 0.6; a value inside is accepted and
  stored. A detector whose contamination is outside the interval cannot be fitted: when
  validation and estimation pass, fit fails with \<open>InvalidParameter\<close>.
\<close>

theorem contamination_validated:
  "(MCD_init c sp ac sf rs = Inl InvalidParameter \<longleftrightarrow> \<not> (0 < c \<and> c < 1 / 2))
   \<and> (0 < c \<and> c < 1 / 2 \<longrightarrow> (\<exists>m. MCD_init c sp ac sf rs = Inr m \<and> contamination m = c))
   \<and> MCD_init (6 / 10) sp ac sf rs = Inl InvalidParameter
   \<and> (\<not> (0 < contamination m \<and> contamination m < 1 / 2) \<longrightarrow>
        fst (fit lib m X y amb) \<noteq> None
        \<and> (\<forall>X'. check_array X = Inr X' \<longrightarrow>
              fst (MinCovDet_fit lib (MinCovDet_init (store_precision m) (assume_centered m)
                     (support_fraction m) (random_state m)) X' y amb) = None \<longrightarrow>
              fst (fit lib m X y amb) = Some InvalidParameter))"
proof -
  have init: "(MCD_init c sp ac sf rs = Inl InvalidParameter \<longleftrightarrow> \<not> (0 < c \<and> c < 1 / 2))
      \<and> (0 < c \<and> c < 1 / 2 \<longrightarrow> (\<exists>m. MCD_init c sp ac sf rs = Inr m \<and> contamination m = c))
      \<and> MCD_init (6 / 10) sp ac sf rs = Inl InvalidParameter"
    by (auto simp: MCD_init_def BaseDetector_init_def)
  have refit: "fst (fit lib m X y amb) \<noteq> None
        \<and> (\<forall>X'. check_array X = Inr X' \<longrightarrow>
              fst (MinCovDet_fit lib (MinCovDet_init (store_precision m) (assume_centered m)
                     (support_fraction m) (random_state m)) X' y amb) = None \<longrightarrow>
              fst (fit lib m X y amb) = Some InvalidParameter)"
    if bad: "\<not> (0 < contamination m \<and> contamination m < 1 / 2)"
  proof -
    have th: "fit_threshold s (contamination m) = Inl InvalidParameter" for s
      using bad by (simp add: fit_threshold_def)
    show ?thesis
      by (auto simp: fit_def set_n_classes_def process_decision_scores_def th Let_def
          split: sum.splits option.splits prod.splits
          dest!: MinCovDet_fit_success)
  qed
  from init refit show ?thesis by blast
qed

theorem contamination_validated_witness:
  "MCD_init (2 / 5) True False None (Seed 7) = Inr (new_MCD (2 / 5) (Seed 7) :: nat MCD)
   \<and> MCD_init (3 / 5) True False None (Seed 7) = (Inl InvalidParameter :: error + nat MCD)
   \<and> fst (fit classical_library (new_MCD (3 / 5) (Seed 7)) example_data None 0)
       = Some InvalidParameter"
proof -
  have a: "check_array example_data = Inr [[1], [2], [6]]"
    by (simp add: model_defs)
  have b: "fst (MinCovDet_fit classical_library
                  (MinCovDet_init True False None (Seed 7)) [[1], [2], [6]] None 0) = None"
    by (simp add: model_defs)
  have c: "\<not> (0 < contamination (new_MCD (3 / 5) (Seed 7) :: nat MCD)
             \<and> contamination (new_MCD (3 / 5) (Seed 7) :: nat MCD) < 1 / 2)"
    by (simp add: new_MCD_def)
  have d: "store_precision (new_MCD (3 / 5) (Seed 7) :: nat MCD) = True
         \<and> assume_centered (new_MCD (3 / 5) (Seed 7) :: nat MCD) = False
         \<and> support_fraction (new_MCD (3 / 5) (Seed 7) :: nat MCD) = None
         \<and> random_state (new_MCD (3 / 5) (Seed 7) :: nat MCD) = Seed 7"
    by (simp add: new_MCD_def)
  from contamination_validated [of "3 / 5" True False None "Seed 7 :: nat random_state"
      "new_MCD (3 / 5) (Seed 7)" classical_library example_data None 0] a b c d
  show ?thesis by (simp add: new_MCD_init)
qed


section \<open>Fitting again\<close>

text \<open>
  C6. With an integer seed, fit gives the same detector whatever the state of the
  process-wide generator and whatever was fitted before: fitting a second detector built
  with the same arguments, or the fitted detector itself once more, on the same data
  gives a detector equal to the first, in particular with the same raw location,
  covariance, support and decision scores.
\<close>

theorem fit_deterministic_with_seed:
  assumes "random_state m = Seed s" and "same_parameters m0 m"
    and "fit lib m X y amb = (None, m1, amb1)"
  shows "fit lib m0 X y amb0 = (None, m1, amb0) \<and> fit lib m1 X y amb0 = (None, m1, amb0)
       \<and> raw_location m1 = raw_location (fst (snd (fit lib m0 X y amb0)))
       \<and> covariance m1 = covariance (fst (snd (fit lib m0 X y amb0)))
       \<and> support m1 = support (fst (snd (fit lib m0 X y amb0)))
       \<and> decision_scores m1 = decision_scores (fst (snd (fit lib m0 X y amb0)))"
proof -
  from fit_success [OF assms(3)] obtain X' d f t ls where
    X: "check_array X = Inr X'"
    and d: "MinCovDet_fit lib (MinCovDet_init (store_precision m) (assume_centered m)
          (support_fraction m) (random_state m)) X' y amb = (None, d, amb1)"
    and f: "d_fitted d = Some f"
    and th: "fit_threshold (f_dist f) (contamination m) = Inr (t, ls)"
    and m1: "m1 = m\<lparr>n_classes := map_option (\<lambda>ys. length (remdups ys)) y,
             detector := Some d, random_state := d_random_state d,
             decision_scores := Some (f_dist f), threshold := Some t, labels := Some ls\<rparr>"
    by blast
  have seed: "d_random_state (MinCovDet_init (store_precision m) (assume_centered m)
          (support_fraction m) (random_state m)) = Seed s"
    using assms(1) by (simp add: MinCovDet_init_def)
  from MinCovDet_fit_seed [OF seed d, of amb0]
  have d0: "MinCovDet_fit lib (MinCovDet_init (store_precision m) (assume_centered m)
          (support_fraction m) (random_state m)) X' y amb0 = (None, d, amb0)"
    and rs: "d_random_state d = Seed s"
    by simp_all
  have b: "fit lib m X y amb0 = (None, m1, amb0)"
    unfolding m1 using X d0 f th by (rule fit_successI)
  have a: "fit lib m0 X y amb0 = (None, m1, amb0)"
    using assms(2) b by (rule fit_reads_parameters_only)
  have "same_parameters m1 m"
    using assms(1) rs by (simp add: m1 same_parameters_def)
  then have c: "fit lib m1 X y amb0 = (None, m1, amb0)"
    using b by (rule fit_reads_parameters_only)
  from a c show ?thesis by simp
qed

theorem fit_deterministic_with_seed_witness:
  "random_state (new_MCD (2 / 5) (Seed 7) :: nat MCD) = Seed 7
   \<and> same_parameters example_fitted (new_MCD (2 / 5) (Seed 7))
   \<and> fit classical_library (new_MCD (2 / 5) (Seed 7)) example_data None 0
        = (None, example_fitted, 0)
   \<and> fit classical_library example_fitted example_data None 5 = (None, example_fitted, 5)"
proof -
  have rs: "random_state (new_MCD (2 / 5) (Seed 7) :: nat MCD) = Seed 7"
    by (simp add: new_MCD_def)
  have sp: "same_parameters example_fitted (new_MCD (2 / 5) (Seed 7))"
    by (simp add: same_parameters_def example_fitted_def new_MCD_def)
  from fit_deterministic_with_seed [OF rs sp example_fit [of 0], of 5] rs sp
  show ?thesis by (simp add: example_fit)
qed

text \<open>
  C7. A successful fit reads nothing of what an earlier fit left: started from any
  detector with the same constructor arguments, a new one included, it ends in the same
  detector, whose estimator is the one newly built from the arguments and fitted on the
  new data.
\<close>

theorem refit_discards_prior_state:
  assumes "same_parameters m0 m" and "fit lib m X y amb = (None, m', amb')"
  shows "fit lib m0 X y amb = (None, m', amb')
       \<and> (\<exists>X' d. check_array X = Inr X'
            \<and> MinCovDet_fit lib (MinCovDet_init (store_precision m0) (assume_centered m0)
                 (support_fraction m0) (random_state m0)) X' y amb = (None, d, amb')
            \<and> detector m' = Some d)"
proof -
  have a: "fit lib m0 X y amb = (None, m', amb')"
    using assms by (rule fit_reads_parameters_only)
  from fit_success [OF a] show ?thesis
    using a by auto
qed

theorem refit_discards_prior_state_witness:
  "same_parameters (new_MCD (2 / 5) (Seed 7)) example_fitted
   \<and> fit classical_library example_fitted example_refit_data None 0
       = (None, example_refitted, 0)
   \<and> fit classical_library (new_MCD (2 / 5) (Seed 7)) example_refit_data None 0
       = (None, example_refitted, 0)"
proof -
  have sp: "same_parameters (new_MCD (2 / 5) (Seed 7)) example_fitted"
    by (simp add: same_parameters_def example_fitted_def new_MCD_def)
  from refit_discards_prior_state [OF sp example_refit [of 0]] sp
  show ?thesis by (simp add: example_refit)
qed


section \<open>Inputs that are rejected\<close>

lemma those_eq_None_iff: "those xs = None \<longleftrightarrow> None \<in> set xs"
  by (induction xs) (auto split: option.splits)

lemma those_eq_SomeD: "those xs = Some ys \<Longrightarrow> xs = map Some ys"
  by (induction xs arbitrary: ys) (auto split: option.splits)

lemma those_map_None: "those (map f xs) = None \<longleftrightarrow> (\<exists>x\<in>set xs. f x = None)"
  by (induction xs) (auto split: option.splits)

lemma rows_of_nonempty: "rows_of X = Some rows \<Longrightarrow> rows \<noteq> []"
  by (cases X) (auto split: if_splits dest!: those_eq_SomeD)

lemma check_array_nonempty:
  assumes "check_array X = Inr M"
  shows "M \<noteq> []"
proof -
  from assms obtain rows where r: "rows_of X = Some rows"
    and M: "those (map (\<lambda>r. those (map num_of r)) rows) = Some M"
    by (auto simp: check_array_def split: option.splits if_splits)
  from those_eq_SomeD [OF M] have "length M = length rows"
    by (metis length_map)
  with rows_of_nonempty [OF r] show ?thesis by auto
qed

lemma check_array_rejects:
  "check_array X = Inl e \<longleftrightarrow> e = InvalidInput \<and> \<not> (is_2d X \<and> all_finite_numbers X)"
proof (cases "rows_of X")
  case None
  then show ?thesis by (auto simp: check_array_def is_2d_def)
next
  case (Some rows)
  have "those (map (\<lambda>r. those (map num_of r)) rows) = None \<longleftrightarrow> \<not> all_finite_numbers X"
    using Some
    by (simp add: those_map_None list_all_iff all_finite_numbers_def cells_of_def)
  then show ?thesis
    using Some
    by (cases "those (map (\<lambda>r. those (map num_of r)) rows)")
       (auto simp: check_array_def is_2d_def)
qed

lemma num_of_None_iff:
  "num_of c = None \<longleftrightarrow> c = NaN \<or> c = PosInf \<or> c = NegInf \<or> (\<exists>s. c = Text s)"
  by (cases c) auto

text \<open>
  C10. On a fitted detector, an input that is not two-dimensional, or that holds NaN, an
  infinity or something that is not a number, makes \<open>decision_function\<close> fail with
  \<open>InvalidInput\<close>, the error fit gives for the same input, and the detector is left as
  it was.
\<close>

theorem decision_function_validates_input:
  assumes "check_is_fitted m = None"
    and "\<not> is_2d X \<or> (\<exists>c\<in>set (cells_of X). c = NaN \<or> c = PosInf \<or> c = NegInf \<or> (\<exists>s. c = Text s))"
  shows "decision_function lib m X = (Inl InvalidInput, m)
       \<and> fit lib m0 X y amb = (Some InvalidInput, m0, amb)"
proof -
  have "\<not> (is_2d X \<and> all_finite_numbers X)"
    using assms(2) by (auto simp: all_finite_numbers_def list_all_iff num_of_None_iff)
  then have "check_array X = Inl InvalidInput"
    by (simp add: check_array_rejects)
  then show ?thesis
    using assms(1) by (simp add: decision_function_def fit_def)
qed

theorem decision_function_validates_input_witness:
  "check_is_fitted example_fitted = None
   \<and> \<not> is_2d example_flat_input
   \<and> NaN \<in> set (cells_of example_nan_input)
   \<and> decision_function classical_library example_fitted example_flat_input
       = (Inl InvalidInput, example_fitted)
   \<and> decision_function classical_library example_fitted example_nan_input
       = (Inl InvalidInput, example_fitted)
   \<and> fit classical_library example_fitted example_nan_input None 0
       = (Some InvalidInput, example_fitted, 0)"
proof -
  have a: "check_is_fitted example_fitted = None"
    by (simp add: check_is_fitted_def example_fitted_def)
  have b: "\<not> is_2d example_flat_input"
    by (simp add: is_2d_def example_flat_input_def)
  have c: "NaN \<in> set (cells_of example_nan_input)"
    by (simp add: cells_of_def example_nan_input_def)
  from decision_function_validates_input [OF a, of example_flat_input classical_library]
    decision_function_validates_input [OF a, of example_nan_input classical_library
      example_fitted None 0] a b c
  show ?thesis by blast
qed

lemma score_Cons_mismatch:
  "length x \<noteq> length loc \<Longrightarrow> score (x # xs) loc P = Inl DimensionMismatch"
  by (simp add: score_def score_point_def)

lemma score_Cons_length:
  "score (x # xs) loc P = Inr ds \<Longrightarrow> length x = length loc"
  by (auto simp: score_def score_point_def split: if_splits sum.splits)

text \<open>
  C8. A detector fitted on data of \<open>p\<close> columns fails with \<open>DimensionMismatch\<close> on a
  valid input whose number of columns is not \<open>p\<close>, and returns no scores.
\<close>

theorem decision_function_dimension_mismatch:
  assumes "fit lib m0 T y amb = (None, m, amb')"
    and "check_array T = Inr T'" and "check_array X = Inr X'"
    and "width X' \<noteq> width T'"
  shows "decision_function lib m X = (Inl DimensionMismatch, m)"
proof -
  from fit_success [OF assms(1)] assms(2) obtain d f t ls where
    d: "MinCovDet_fit lib (MinCovDet_init (store_precision m0) (assume_centered m0)
          (support_fraction m0) (random_state m0)) T' y amb = (None, d, amb')"
    and f: "d_fitted d = Some f"
    and m: "m = m0\<lparr>n_classes := map_option (\<lambda>ys. length (remdups ys)) y,
             detector := Some d, random_state := d_random_state d,
             decision_scores := Some (f_dist f), threshold := Some t, labels := Some ls\<rparr>"
    by auto
  from fitted_precision [OF d f] obtain P where
    gp: "get_precision lib f = Inr P" and sc: "score T' (f_location f) P = Inr (f_dist f)"
    by blast
  from check_array_nonempty [OF assms(2)] obtain r rs where T': "T' = r # rs"
    by (cases T') auto
  from check_array_nonempty [OF assms(3)] obtain x xs where X': "X' = x # xs"
    by (cases X') auto
  have "length r = length (f_location f)"
    using sc unfolding T' by (rule score_Cons_length)
  then have "length x \<noteq> length (f_location f)"
    using assms(4) by (simp add: T' X' width_def)
  then have "score X' (f_location f) P = Inl DimensionMismatch"
    unfolding X' by (rule score_Cons_mismatch)
  then show ?thesis
    using assms(3) f gp
    by (simp add: m decision_function_def check_is_fitted_def mahalanobis_def)
qed

theorem decision_function_dimension_mismatch_witness:
  "fit classical_library (new_MCD (2 / 5) (Seed 7)) example_data None 0
     = (None, example_fitted, 0)
   \<and> check_array example_data = Inr [[1], [2], [6]]
   \<and> check_array (array_of [[1, 2]]) = Inr [[1, 2]]
   \<and> width [[1, 2]] \<noteq> width [[1], [2], [6]]
   \<and> decision_function classical_library example_fitted (array_of [[1, 2]])
       = (Inl DimensionMismatch, example_fitted)"
proof -
  have a: "check_array example_data = Inr [[1], [2], [6]]"
    by (simp add: model_defs)
  have b: "check_array (array_of [[1, 2]]) = Inr [[1, 2]]"
    by (simp add: model_defs)
  have c: "width [[1, 2 :: real]] \<noteq> width [[1], [2], [6 :: real]]"
    by (simp add: width_def)
  from decision_function_dimension_mismatch [OF example_fit [of 0] a b c] a b c
  show ?thesis by (simp add: example_fit)
qed

end
